theory Spec2Isabelle
  imports Main
begin

section \<open>Errors\<close>

text \<open>
  Neither script catches anything, so every exception raised by a library call ends the
  run. The exceptions that the two world-facing calls raise are values of one type:
  \<^verbatim>\<open>pd.read_parquet(url)\<close> raises \<open>URLError\<close> when the request fails, \<open>HTTPError\<close> when
  the resource is unavailable and \<open>ArrowInvalid\<close> when the bytes are not a parquet file;
  \<^verbatim>\<open>psycopg2.connect(...)\<close> raises \<open>OperationalError\<close> when the connection is refused.
\<close>

datatype error = URLError | HTTPError | ArrowInvalid | OperationalError

section \<open>The extractor: \<^verbatim>\<open>src/extractor/extract.py\<close>\<close>

text \<open>
  A data frame is its column names and its rows in dataset order; the cell type is left
  open. What \<^verbatim>\<open>print\<close> receives is kept as a value (a frame, or the column index), one
  entry of standard output per call of \<^verbatim>\<open>print\<close>; the characters that pandas renders for
  it are not modelled.
\<close>

record 'v dataframe =
  columns :: "string list"
  rows :: "'v list list"

datatype 'v printed = Frame "'v dataframe" | Index "string list"

text \<open>
  \<^verbatim>\<open>DataFrame.head(n)\<close> is the row slice \<^verbatim>\<open>iloc[:n]\<close>: the first \<open>n\<close> rows, all of them
  when there are fewer, and for a negative \<open>n\<close> all but the last \<open>-n\<close>. The columns are
  kept.
\<close>

definition head :: "int \<Rightarrow> 'v dataframe \<Rightarrow> 'v dataframe" where
  "head n df =
     df\<lparr>rows := take (if n < 0 then nat (int (length (rows df)) + n) else nat n) (rows df)\<rparr>"

definition url :: string where
  "url = ''https://huggingface.co/datasets/electricsheepafrica/nigerian_energy_and_utilities_billing_payments/resolve/main/nigerian_energy_and_utilities_billing_payments.parquet''"

text \<open>\<^verbatim>\<open>print(x)\<close> appends one entry to standard output.\<close>

definition print :: "'v printed \<Rightarrow> 'v printed list \<Rightarrow> 'v printed list" where
  "print x out = out @ [x]"

text \<open>
  The script (\<open>extract\<close> is a command word of Isabelle, hence the suffix). What the
  download and the parse give for a URL belongs to the world and is the parameter
  \<open>read_parquet\<close>. The result is how the run ends (\<open>Inl\<close> the uncaught
  exception) together with standard output.
\<close>

definition extract_py ::
  "(string \<Rightarrow> error + 'v dataframe) \<Rightarrow> (error + unit) \<times> 'v printed list" where
  "extract_py read_parquet =
     (case read_parquet url of
        Inl e \<Rightarrow> (Inl e, [])
      | Inr data \<Rightarrow> (Inr (), print (Index (columns data)) (print (Frame (head 10 data)) [])))"

section \<open>The connector: \<^verbatim>\<open>src/postgres/load.py\<close>\<close>

text \<open>The keyword arguments of \<^verbatim>\<open>psycopg2.connect\<close>; \<open>None\<close> is Python's \<^verbatim>\<open>None\<close>.\<close>

record conn_params =
  dbname :: "string option"
  host :: "string option"
  password :: "string option"
  user :: "string option"
  port :: "string option"

type_synonym connection = nat

text \<open>The calls that leave the script, in the order they are made.\<close>

datatype event = LoadDotenv | Getenv string | Connect conn_params | Close connection

text \<open>
  The state of the running process: \<^verbatim>\<open>os.environ\<close>, the connections it holds open, and
  the calls made so far.
\<close>

record process =
  environ :: "string \<rightharpoonup> string"
  open_conns :: "connection list"
  trace :: "event list"

text \<open>
  What the run finds outside: the environment file as python-dotenv parses it (\<open>None\<close>
  when there is no file; a key written without a value is bound to \<open>None\<close>), and what
  a connection attempt yields (client library, network and server together). The
  attempt is given the keyword arguments and the process environment at the time of the
  call: for a parameter that is not passed, libpq looks into the environment
  (\<open>PGPASSWORD\<close>, \<open>PGHOST\<close> and the like).
\<close>

record world =
  dotenv_file :: "(string \<rightharpoonup> string option) option"
  pg_connect :: "conn_params \<Rightarrow> (string \<rightharpoonup> string) \<Rightarrow> error + connection"

definition startup :: "(string \<rightharpoonup> string) \<Rightarrow> process" where
  "startup e = \<lparr>environ = e, open_conns = [], trace = []\<rparr>"

text \<open>
  python-dotenv's switch: \<^verbatim>\<open>load_dotenv\<close> returns at once, the file unread, when
  \<open>PYTHON_DOTENV_DISABLED\<close> is in \<^verbatim>\<open>os.environ\<close> and its value, case-folded, is one of
  \<open>1\<close>, \<open>true\<close>, \<open>t\<close>, \<open>yes\<close>, \<open>y\<close>. Strings are bytes (UTF-8). \<open>casefold\<close> is
  \<^verbatim>\<open>str.casefold\<close> wherever the folded value is one of the five words: ASCII capitals are
  lowered and the long s (bytes \<open>C5 BF\<close>) folds to \<open>s\<close>; every other byte is kept,
  and no other character folds into the letters of the five words.
\<close>

definition lower :: "char \<Rightarrow> char" where
  "lower c =
     (case map_of (zip ''ABCDEFGHIJKLMNOPQRSTUVWXYZ'' ''abcdefghijklmnopqrstuvwxyz'') c of
        None \<Rightarrow> c
      | Some l \<Rightarrow> l)"

fun casefold :: "string \<Rightarrow> string" where
  "casefold [] = []"
| "casefold [c] = [lower c]"
| "casefold (c # d # cs) =
     (if c = CHR 0xC5 \<and> d = CHR 0xBF then CHR ''s'' # casefold cs
      else lower c # casefold (d # cs))"

definition dotenv_disabled :: "(string \<rightharpoonup> string) \<Rightarrow> bool" where
  "dotenv_disabled env =
     (case env ''PYTHON_DOTENV_DISABLED'' of
        None \<Rightarrow> False
      | Some v \<Rightarrow> casefold v \<in> set [''1'', ''true'', ''t'', ''yes'', ''y''])"

text \<open>
  \<^verbatim>\<open>load_dotenv(override=False)\<close>, the signature's default, which the script's call
  without arguments takes. When the switch is on, nothing is loaded. Otherwise, for each
  key of the file, a key that is already in \<^verbatim>\<open>os.environ\<close> is skipped unless
  \<open>override\<close>, and a key without a value sets nothing.
\<close>

definition load_dotenv :: "bool \<Rightarrow> world \<Rightarrow> process \<Rightarrow> process" where
  "load_dotenv override w s =
     s\<lparr>environ :=
         (if dotenv_disabled (environ s) then environ s
          else
            (case dotenv_file w of
               None \<Rightarrow> environ s
             | Some d \<Rightarrow>
                 (\<lambda>k. case d k of
                        None \<Rightarrow> environ s k
                      | Some v \<Rightarrow>
                          if environ s k \<noteq> None \<and> \<not> override then environ s k
                          else (case v of None \<Rightarrow> environ s k | Some x \<Rightarrow> Some x)))),
       trace := trace s @ [LoadDotenv]\<rparr>"

text \<open>\<^verbatim>\<open>os.getenv(key)\<close>: the value, or \<^verbatim>\<open>None\<close> for a key that is not set.\<close>

definition getenv :: "string \<Rightarrow> process \<Rightarrow> string option \<times> process" where
  "getenv key s = (environ s key, s\<lparr>trace := trace s @ [Getenv key]\<rparr>)"

text \<open>
  \<^verbatim>\<open>psycopg2.connect(...)\<close>: the world decides, from the keyword arguments and the
  process environment; a connection that opens is held by the process.
\<close>

definition connect :: "world \<Rightarrow> conn_params \<Rightarrow> process \<Rightarrow> (error + connection) \<times> process" where
  "connect w params s =
     (case pg_connect w params (environ s) of
        Inl e \<Rightarrow> (Inl e, s\<lparr>trace := trace s @ [Connect params]\<rparr>)
      | Inr c \<Rightarrow> (Inr c, s\<lparr>open_conns := open_conns s @ [c],
                            trace := trace s @ [Connect params]\<rparr>))"

text \<open>\<^verbatim>\<open>conn.close()\<close> releases the connection.\<close>

definition close :: "connection \<Rightarrow> process \<Rightarrow> process" where
  "close c s = s\<lparr>open_conns := remove1 c (open_conns s), trace := trace s @ [Close c]\<rparr>"

text \<open>The script, statement by statement.\<close>

definition load :: "world \<Rightarrow> process \<Rightarrow> (error + unit) \<times> process" where
  "load w s0 =
     (let s1 = load_dotenv False w s0;
          (db_name, s2) = getenv ''DB_NAME'' s1;
          (db_username, s3) = getenv ''DB_USERNAME'' s2;
          (db_password, s4) = getenv ''DB_PASSWORD'' s3;
          (db_host, s5) = getenv ''DB_HOST'' s4;
          (db_port, s6) = getenv ''DB_PORT'' s5;
          (r, s7) = connect w
                      \<lparr>dbname = db_name, host = db_host, password = db_password,
                       user = db_username, port = db_port\<rparr> s6
      in case r of
           Inl e \<Rightarrow> (Inl e, s7)
         | Inr conn \<Rightarrow> (Inr (), close conn s7))"

section \<open>Reading a run\<close>

text \<open>The keys read from the environment, the connection attempts and the releases of a trace.\<close>

fun env_reads :: "event list \<Rightarrow> string list" where
  "env_reads [] = []"
| "env_reads (Getenv k # t) = k # env_reads t"
| "env_reads (_ # t) = env_reads t"

fun connects :: "event list \<Rightarrow> conn_params list" where
  "connects [] = []"
| "connects (Connect p # t) = p # connects t"
| "connects (_ # t) = connects t"

fun closes :: "event list \<Rightarrow> connection list" where
  "closes [] = []"
| "closes (Close c # t) = c # closes t"
| "closes (_ # t) = closes t"

text \<open>
  The process environment once line 5 of \<^verbatim>\<open>load.py\<close> has run in a process started with
  environment \<open>e\<close>, and the five lookups in it, placed as line 13 places them.
\<close>

definition environment :: "world \<Rightarrow> (string \<rightharpoonup> string) \<Rightarrow> (string \<rightharpoonup> string)" where
  "environment w e = environ (load_dotenv False w (startup e))"

definition arguments :: "world \<Rightarrow> (string \<rightharpoonup> string) \<Rightarrow> conn_params" where
  "arguments w e =
     \<lparr>dbname = environment w e ''DB_NAME'', host = environment w e ''DB_HOST'',
      password = environment w e ''DB_PASSWORD'', user = environment w e ''DB_USERNAME'',
      port = environment w e ''DB_PORT''\<rparr>"

definition calls :: "event list" where
  "calls = [LoadDotenv, Getenv ''DB_NAME'', Getenv ''DB_USERNAME'', Getenv ''DB_PASSWORD'',
            Getenv ''DB_HOST'', Getenv ''DB_PORT'']"

section \<open>Sample worlds\<close>

text \<open>
  A remote that serves a given frame at the script's URL only, one that serves it at
  every URL, and one that fails.
\<close>

definition remote_serving :: "'v dataframe \<Rightarrow> string \<Rightarrow> error + 'v dataframe" where
  "remote_serving d u = (if u = url then Inr d else Inl HTTPError)"

definition remote_always :: "'v dataframe \<Rightarrow> string \<Rightarrow> error + 'v dataframe" where
  "remote_always d u = Inr d"

definition remote_failing :: "error \<Rightarrow> string \<Rightarrow> error + nat dataframe" where
  "remote_failing err u = Inl err"

definition twelve_rows :: "nat dataframe" where
  "twelve_rows =
     \<lparr>columns = [''customer_id'', ''amount_billed''],
      rows = [[1, 10], [2, 20], [3, 30], [4, 40], [5, 50], [6, 60],
              [7, 70], [8, 80], [9, 90], [10, 100], [11, 110], [12, 120]]\<rparr>"

definition three_rows :: "nat dataframe" where
  "three_rows =
     \<lparr>columns = [''customer_id'', ''amount_billed''], rows = [[1, 10], [2, 20], [3, 30]]\<rparr>"

definition no_rows :: "nat dataframe" where
  "no_rows = \<lparr>columns = [''customer_id'', ''amount_billed''], rows = []\<rparr>"

text \<open>
  A database server on \<open>localhost:5432\<close> with a database \<open>billing\<close> and a role
  \<open>postgres\<close> that is let in without a password (trust authentication): the password
  plays no part in whether the connection opens.
\<close>

definition trusting_server :: "conn_params \<Rightarrow> (string \<rightharpoonup> string) \<Rightarrow> error + connection" where
  "trusting_server p env =
     (if dbname p = Some ''billing'' \<and> host p = Some ''localhost''
         \<and> user p = Some ''postgres'' \<and> port p = Some ''5432''
      then Inr 7 else Inl OperationalError)"

text \<open>
  The same server asking the role for its password, \<open>secret\<close>: the password is the
  keyword argument, and \<open>PGPASSWORD\<close> of the process environment when the argument is
  \<open>None\<close>.
\<close>

definition password_server :: "conn_params \<Rightarrow> (string \<rightharpoonup> string) \<Rightarrow> error + connection" where
  "password_server p env =
     (if dbname p = Some ''billing'' \<and> host p = Some ''localhost''
         \<and> user p = Some ''postgres'' \<and> port p = Some ''5432''
         \<and> (case password p of None \<Rightarrow> env ''PGPASSWORD'' | Some x \<Rightarrow> Some x) = Some ''secret''
      then Inr 7 else Inl OperationalError)"

definition password_world :: world where
  "password_world = \<lparr>dotenv_file = None, pg_connect = password_server\<rparr>"

definition trusting_world :: world where
  "trusting_world = \<lparr>dotenv_file = None, pg_connect = trusting_server\<rparr>"

definition shell_env :: "string \<rightharpoonup> string" where
  "shell_env =
     [''DB_NAME'' \<mapsto> ''billing'', ''DB_USERNAME'' \<mapsto> ''postgres'',
      ''DB_PASSWORD'' \<mapsto> ''secret'', ''DB_HOST'' \<mapsto> ''localhost'',
      ''DB_PORT'' \<mapsto> ''5432'']"

definition no_password_env :: "string \<rightharpoonup> string" where
  "no_password_env =
     [''DB_NAME'' \<mapsto> ''billing'', ''DB_USERNAME'' \<mapsto> ''postgres'',
      ''DB_HOST'' \<mapsto> ''localhost'', ''DB_PORT'' \<mapsto> ''5432'']"

definition pgpassword_env :: "string \<rightharpoonup> string" where
  "pgpassword_env =
     [''DB_NAME'' \<mapsto> ''billing'', ''DB_USERNAME'' \<mapsto> ''postgres'',
      ''DB_HOST'' \<mapsto> ''localhost'', ''DB_PORT'' \<mapsto> ''5432'',
      ''PGPASSWORD'' \<mapsto> ''secret'']"

definition disabled_env :: "string \<rightharpoonup> string" where
  "disabled_env =
     [''DB_NAME'' \<mapsto> ''billing'', ''DB_USERNAME'' \<mapsto> ''postgres'',
      ''DB_HOST'' \<mapsto> ''localhost'', ''DB_PORT'' \<mapsto> ''5432'',
      ''PYTHON_DOTENV_DISABLED'' \<mapsto> ''True'']"

definition bad_port_env :: "string \<rightharpoonup> string" where
  "bad_port_env =
     [''DB_NAME'' \<mapsto> ''billing'', ''DB_USERNAME'' \<mapsto> ''postgres'',
      ''DB_PASSWORD'' \<mapsto> ''secret'', ''DB_HOST'' \<mapsto> ''localhost'',
      ''DB_PORT'' \<mapsto> ''not-a-port'']"

text \<open>A world whose environment file binds all five names, to other values.\<close>

definition staging_file :: "string \<rightharpoonup> string option" where
  "staging_file =
     [''DB_NAME'' \<mapsto> Some ''staging'', ''DB_USERNAME'' \<mapsto> Some ''loader'',
      ''DB_PASSWORD'' \<mapsto> Some ''hunter2'', ''DB_HOST'' \<mapsto> Some ''db.internal'',
      ''DB_PORT'' \<mapsto> Some ''6543'']"

definition staging_world :: world where
  "staging_world = \<lparr>dotenv_file = Some staging_file, pg_connect = trusting_server\<rparr>"

section \<open>The run of the connector, in one equation\<close>

lemma load_run:
  "load w (startup e) =
     (case pg_connect w (arguments w e) (environment w e) of
        Inl err \<Rightarrow>
          (Inl err, \<lparr>environ = environment w e, open_conns = [],
                     trace = calls @ [Connect (arguments w e)]\<rparr>)
      | Inr c \<Rightarrow>
          (Inr (), \<lparr>environ = environment w e, open_conns = [],
                    trace = calls @ [Connect (arguments w e), Close c]\<rparr>))"
  by (simp add: load_def startup_def load_dotenv_def getenv_def connect_def close_def
      environment_def arguments_def calls_def split: sum.split)

lemma environment_idem: "environment w (environment w e) = environment w e"
  by (auto simp: environment_def load_dotenv_def startup_def split: option.splits)

lemma trace_run:
  "trace (snd (load w (startup e))) =
     calls @ Connect (arguments w e) #
       (case pg_connect w (arguments w e) (environment w e) of
          Inl err \<Rightarrow> [] | Inr c \<Rightarrow> [Close c])"
  by (simp add: load_run split: sum.split)

lemma result_run:
  "fst (load w (startup e)) =
     (case pg_connect w (arguments w e) (environment w e) of
          Inl err \<Rightarrow> Inl err | Inr c \<Rightarrow> Inr ())"
  by (simp add: load_run split: sum.split)

lemma connects_run: "connects (trace (snd (load w (startup e)))) = [arguments w e]"
  by (simp add: trace_run calls_def split: sum.split)

lemma closes_run:
  "closes (trace (snd (load w (startup e)))) =
     (case pg_connect w (arguments w e) (environment w e) of
          Inl err \<Rightarrow> [] | Inr c \<Rightarrow> [c])"
  by (simp add: trace_run calls_def split: sum.split)

lemma env_reads_run:
  "env_reads (trace (snd (load w (startup e)))) =
     [''DB_NAME'', ''DB_USERNAME'', ''DB_PASSWORD'', ''DB_HOST'', ''DB_PORT'']"
  by (simp add: trace_run calls_def split: sum.split)

lemma environment_kept: "e k = Some v \<Longrightarrow> environment w e k = Some v"
  by (simp add: environment_def load_dotenv_def startup_def split: option.split)

text \<open>The sample worlds, evaluated.\<close>

lemma sample_not_disabled:
  "\<not> dotenv_disabled shell_env" "\<not> dotenv_disabled no_password_env"
  "\<not> dotenv_disabled bad_port_env" "\<not> dotenv_disabled pgpassword_env"
  by (simp_all add: dotenv_disabled_def shell_env_def no_password_env_def bad_port_env_def
      pgpassword_env_def)

lemma disabled_env_disabled: "dotenv_disabled disabled_env"
  by (simp add: dotenv_disabled_def disabled_env_def lower_def)

lemma environment_no_file: "dotenv_file w = None \<Longrightarrow> environment w e = e"
  by (simp add: environment_def load_dotenv_def startup_def)

lemma environment_disabled: "dotenv_disabled e \<Longrightarrow> environment w e = e"
  by (simp add: environment_def load_dotenv_def startup_def)

lemma arguments_trusting_shell:
  "arguments trusting_world shell_env =
     \<lparr>dbname = Some ''billing'', host = Some ''localhost'', password = Some ''secret'',
      user = Some ''postgres'', port = Some ''5432''\<rparr>"
  by (simp add: arguments_def environment_no_file trusting_world_def shell_env_def)

lemma arguments_trusting_no_password:
  "arguments trusting_world no_password_env =
     \<lparr>dbname = Some ''billing'', host = Some ''localhost'', password = None,
      user = Some ''postgres'', port = Some ''5432''\<rparr>"
  by (simp add: arguments_def environment_no_file trusting_world_def no_password_env_def)

lemma arguments_trusting_bad_port:
  "arguments trusting_world bad_port_env =
     \<lparr>dbname = Some ''billing'', host = Some ''localhost'', password = Some ''secret'',
      user = Some ''postgres'', port = Some ''not-a-port''\<rparr>"
  by (simp add: arguments_def environment_no_file trusting_world_def bad_port_env_def)

lemma arguments_staging_shell:
  "arguments staging_world shell_env =
     \<lparr>dbname = Some ''billing'', host = Some ''localhost'', password = Some ''secret'',
      user = Some ''postgres'', port = Some ''5432''\<rparr>"
  by (simp add: arguments_def environment_def load_dotenv_def startup_def
      staging_world_def staging_file_def sample_not_disabled)
     (simp add: shell_env_def)

lemma arguments_staging_no_password:
  "arguments staging_world no_password_env =
     \<lparr>dbname = Some ''billing'', host = Some ''localhost'', password = Some ''hunter2'',
      user = Some ''postgres'', port = Some ''5432''\<rparr>"
  by (simp add: arguments_def environment_def load_dotenv_def startup_def
      staging_world_def staging_file_def sample_not_disabled)
     (simp add: no_password_env_def)

lemma pg_connect_sample:
  "pg_connect trusting_world = trusting_server" "pg_connect staging_world = trusting_server"
  "pg_connect password_world = password_server"
  by (simp_all add: trusting_world_def staging_world_def password_world_def)

lemma arguments_password_no_password:
  "arguments password_world no_password_env =
     \<lparr>dbname = Some ''billing'', host = Some ''localhost'', password = None,
      user = Some ''postgres'', port = Some ''5432''\<rparr>"
  by (simp add: arguments_def environment_no_file password_world_def no_password_env_def)

lemma arguments_password_pgpassword:
  "arguments password_world pgpassword_env =
     \<lparr>dbname = Some ''billing'', host = Some ''localhost'', password = None,
      user = Some ''postgres'', port = Some ''5432''\<rparr>"
  by (simp add: arguments_def environment_no_file password_world_def pgpassword_env_def)

lemma arguments_staging_disabled:
  "arguments staging_world disabled_env =
     \<lparr>dbname = Some ''billing'', host = Some ''localhost'', password = None,
      user = Some ''postgres'', port = Some ''5432''\<rparr>"
  by (simp add: arguments_def environment_disabled disabled_env_disabled)
     (simp add: disabled_env_def)

section \<open>The extractor's output\<close>

text \<open>
  C1. When the download and the parse succeed and the table has at least 10 rows,
  standard output is two entries and no more: the frame of the first 10 rows, in dataset
  order and under all the columns, and then the index of all column names. The run ends
  without error.
\<close>

theorem extract_prints_ten_rows_then_columns:
  assumes "read_parquet url = Inr data" and "10 \<le> length (rows data)"
  shows "extract_py read_parquet = (Inr (), [Frame (head 10 data), Index (columns data)])
         \<and> rows (head 10 data) = take 10 (rows data)
         \<and> length (rows (head 10 data)) = 10
         \<and> columns (head 10 data) = columns data"
  using assms by (simp add: extract_py_def print_def head_def)

theorem extract_prints_ten_rows_then_columns_witness:
  "remote_serving twelve_rows url = Inr twelve_rows \<and> 10 \<le> length (rows twelve_rows)
   \<and> extract_py (remote_serving twelve_rows) =
       (Inr (),
        [Frame \<lparr>columns = [''customer_id'', ''amount_billed''],
                rows = [[1, 10], [2, 20], [3, 30], [4, 40], [5, 50], [6, 60],
                        [7, 70], [8, 80], [9, 90], [10, 100]]\<rparr>,
         Index [''customer_id'', ''amount_billed'']])"
  using extract_prints_ten_rows_then_columns [of "remote_serving twelve_rows" twelve_rows]
  by (simp add: remote_serving_def twelve_rows_def head_def)

text \<open>
  C2. When \<^verbatim>\<open>pd.read_parquet\<close> raises (the request fails, the resource is unavailable,
  or the bytes do not parse), the run ends with that exception, uncaught, and standard
  output is empty: no row preview and no column listing.
\<close>

theorem extract_fails_without_output:
  "read_parquet url = Inl err \<Longrightarrow> extract_py read_parquet = (Inl err, [])"
  by (simp add: extract_py_def)

theorem extract_fails_without_output_witness:
  "remote_failing URLError url = Inl URLError
   \<and> extract_py (remote_failing URLError) = (Inl URLError, [])
   \<and> extract_py (remote_failing HTTPError) = (Inl HTTPError, [])
   \<and> extract_py (remote_failing ArrowInvalid) = (Inl ArrowInvalid, [])"
  using extract_fails_without_output [of "remote_failing URLError" URLError]
    extract_fails_without_output [of "remote_failing HTTPError" HTTPError]
    extract_fails_without_output [of "remote_failing ArrowInvalid" ArrowInvalid]
  by (simp add: remote_failing_def)

text \<open>
  C8. When the fetched table has fewer than 10 rows, none included, the run does not
  fail: the preview is the whole table, and the index of all column names follows.
\<close>

theorem extract_short_table_printed_whole:
  assumes "read_parquet url = Inr data" and "length (rows data) < 10"
  shows "extract_py read_parquet = (Inr (), [Frame data, Index (columns data)])"
  using assms by (simp add: extract_py_def print_def head_def)

theorem extract_short_table_printed_whole_witness:
  "remote_serving no_rows url = Inr no_rows \<and> length (rows no_rows) < 10
   \<and> extract_py (remote_serving no_rows) =
       (Inr (), [Frame \<lparr>columns = [''customer_id'', ''amount_billed''], rows = []\<rparr>,
                 Index [''customer_id'', ''amount_billed'']])
   \<and> extract_py (remote_serving three_rows) =
       (Inr (), [Frame three_rows, Index [''customer_id'', ''amount_billed'']])"
  using extract_short_table_printed_whole [of "remote_serving no_rows" no_rows]
    extract_short_table_printed_whole [of "remote_serving three_rows" three_rows]
  by (simp add: remote_serving_def no_rows_def three_rows_def)

section \<open>The connector's run\<close>

text \<open>
  C3, as stated, fails twice. With \<open>PYTHON_DOTENV_DISABLED\<close> set to a true value,
  \<^verbatim>\<open>load_dotenv()\<close> leaves a present file unread: the file binds \<open>DB_PASSWORD\<close>, the
  process did not have it, and the value read is \<open>None\<close>. And the connection attempt
  consults more than the five values: two environments that agree on the five names and
  differ in \<open>PGPASSWORD\<close> only end differently against a server that asks for the
  password.
\<close>

theorem file_skipped_and_pgpassword_consulted:
  "dotenv_file staging_world = Some staging_file
   \<and> staging_file ''DB_PASSWORD'' = Some (Some ''hunter2'')
   \<and> disabled_env ''DB_PASSWORD'' = None
   \<and> map password (connects (trace (snd (load staging_world (startup disabled_env))))) = [None]
   \<and> map no_password_env [''DB_NAME'', ''DB_USERNAME'', ''DB_PASSWORD'', ''DB_HOST'', ''DB_PORT'']
       = map pgpassword_env [''DB_NAME'', ''DB_USERNAME'', ''DB_PASSWORD'', ''DB_HOST'', ''DB_PORT'']
   \<and> fst (load password_world (startup no_password_env)) = Inl OperationalError
   \<and> fst (load password_world (startup pgpassword_env)) = Inr ()"
proof -
  have bound: "dotenv_file staging_world = Some staging_file"
    "staging_file ''DB_PASSWORD'' = Some (Some ''hunter2'')"
    by (simp_all add: staging_world_def staging_file_def)
  have vars: "disabled_env ''DB_PASSWORD'' = None"
    "map no_password_env [''DB_NAME'', ''DB_USERNAME'', ''DB_PASSWORD'', ''DB_HOST'', ''DB_PORT'']
       = map pgpassword_env [''DB_NAME'', ''DB_USERNAME'', ''DB_PASSWORD'', ''DB_HOST'', ''DB_PORT'']"
    by (simp_all add: disabled_env_def no_password_env_def pgpassword_env_def)
  have skipped: "map password (connects (trace (snd (load staging_world
      (startup disabled_env))))) = [None]"
    by (simp add: connects_run arguments_staging_disabled)
  have refused: "fst (load password_world (startup no_password_env)) = Inl OperationalError"
  proof -
    have e: "environment password_world no_password_env = no_password_env"
      by (simp add: environment_no_file password_world_def)
    have "pg_connect password_world (arguments password_world no_password_env)
        (environment password_world no_password_env) = Inl OperationalError"
      by (simp add: e pg_connect_sample arguments_password_no_password password_server_def)
         (simp add: no_password_env_def)
    then show ?thesis
      by (simp add: result_run)
  qed
  have accepted: "fst (load password_world (startup pgpassword_env)) = Inr ()"
  proof -
    have e: "environment password_world pgpassword_env = pgpassword_env"
      by (simp add: environment_no_file password_world_def)
    have "pg_connect password_world (arguments password_world pgpassword_env)
        (environment password_world pgpassword_env) = Inr 7"
      by (simp add: e pg_connect_sample arguments_password_pgpassword password_server_def)
         (simp add: pgpassword_env_def)
    then show ?thesis
      by (simp add: result_run)
  qed
  from bound vars skipped refused accepted show ?thesis
    by simp
qed

text \<open>
  C3, amended. In every run the first call is \<^verbatim>\<open>load_dotenv()\<close>, and the five reads of
  \<open>DB_NAME\<close>, \<open>DB_USERNAME\<close>, \<open>DB_PASSWORD\<close>, \<open>DB_HOST\<close>, \<open>DB_PORT\<close> follow it in
  that order; they are the script's only reads of the environment, under names written
  in the script. The values handed to the connection attempt are the lookups in the
  environment as \<^verbatim>\<open>load_dotenv()\<close> left it: unchanged when there is no file or when
  \<open>PYTHON_DOTENV_DISABLED\<close> is on, and otherwise holding the file's value for a key that
  the file binds and the process did not have.
\<close>

theorem load_dotenv_then_five_reads:
  "take 6 (trace (snd (load w (startup e)))) =
     [LoadDotenv, Getenv ''DB_NAME'', Getenv ''DB_USERNAME'', Getenv ''DB_PASSWORD'',
      Getenv ''DB_HOST'', Getenv ''DB_PORT'']
   \<and> env_reads (trace (snd (load w (startup e)))) =
       [''DB_NAME'', ''DB_USERNAME'', ''DB_PASSWORD'', ''DB_HOST'', ''DB_PORT'']
   \<and> connects (trace (snd (load w (startup e)))) =
       [\<lparr>dbname = environ (load_dotenv False w (startup e)) ''DB_NAME'',
         host = environ (load_dotenv False w (startup e)) ''DB_HOST'',
         password = environ (load_dotenv False w (startup e)) ''DB_PASSWORD'',
         user = environ (load_dotenv False w (startup e)) ''DB_USERNAME'',
         port = environ (load_dotenv False w (startup e)) ''DB_PORT''\<rparr>]
   \<and> (dotenv_file w = None \<longrightarrow> environ (load_dotenv False w (startup e)) = e)
   \<and> (dotenv_disabled e \<longrightarrow> environ (load_dotenv False w (startup e)) = e)
   \<and> (dotenv_file w = Some d \<and> \<not> dotenv_disabled e \<and> d k = Some (Some v) \<and> e k = None \<longrightarrow>
        environ (load_dotenv False w (startup e)) k = Some v)"
proof -
  have "take 6 (trace (snd (load w (startup e)))) = calls"
    by (simp add: trace_run calls_def)
  moreover have "connects (trace (snd (load w (startup e)))) = [arguments w e]"
    by (rule connects_run)
  moreover have "dotenv_file w = None \<longrightarrow> environ (load_dotenv False w (startup e)) = e"
    by (simp add: load_dotenv_def startup_def)
  moreover have "dotenv_disabled e \<longrightarrow> environ (load_dotenv False w (startup e)) = e"
    by (simp add: load_dotenv_def startup_def)
  moreover have "dotenv_file w = Some d \<and> \<not> dotenv_disabled e \<and> d k = Some (Some v)
        \<and> e k = None \<longrightarrow> environ (load_dotenv False w (startup e)) k = Some v"
    by (simp add: load_dotenv_def startup_def)
  ultimately show ?thesis
    by (simp add: env_reads_run calls_def arguments_def environment_def)
qed

theorem load_dotenv_then_five_reads_witness:
  "dotenv_file trusting_world = None
   \<and> environ (load_dotenv False trusting_world (startup shell_env)) = shell_env
   \<and> dotenv_disabled disabled_env
   \<and> environ (load_dotenv False staging_world (startup disabled_env)) = disabled_env
   \<and> dotenv_file staging_world = Some staging_file \<and> \<not> dotenv_disabled no_password_env
   \<and> staging_file ''DB_PASSWORD'' = Some (Some ''hunter2'')
   \<and> no_password_env ''DB_PASSWORD'' = None
   \<and> environ (load_dotenv False staging_world (startup no_password_env)) ''DB_PASSWORD''
       = Some ''hunter2''
   \<and> connects (trace (snd (load staging_world (startup no_password_env)))) =
       [\<lparr>dbname = Some ''billing'', host = Some ''localhost'', password = Some ''hunter2'',
         user = Some ''postgres'', port = Some ''5432''\<rparr>]"
proof -
  have h1: "dotenv_file trusting_world = None"
    by (simp add: trusting_world_def)
  have h2: "dotenv_disabled disabled_env"
    by (rule disabled_env_disabled)
  have h3: "dotenv_file staging_world = Some staging_file \<and> \<not> dotenv_disabled no_password_env
      \<and> staging_file ''DB_PASSWORD'' = Some (Some ''hunter2'')
      \<and> no_password_env ''DB_PASSWORD'' = None"
    by (simp add: staging_world_def staging_file_def sample_not_disabled)
       (simp add: no_password_env_def)
  note a = load_dotenv_then_five_reads [of trusting_world shell_env]
  note b = load_dotenv_then_five_reads [of staging_world disabled_env]
  note c = load_dotenv_then_five_reads [of staging_world no_password_env staging_file
      "''DB_PASSWORD''" "''hunter2''"]
  from a h1 have r1: "environ (load_dotenv False trusting_world (startup shell_env)) = shell_env"
    by blast
  from b h2 have r2: "environ (load_dotenv False staging_world (startup disabled_env))
      = disabled_env"
    by blast
  from c h3 have r3: "environ (load_dotenv False staging_world (startup no_password_env))
      ''DB_PASSWORD'' = Some ''hunter2''"
    by blast
  have r4: "connects (trace (snd (load staging_world (startup no_password_env)))) =
       [\<lparr>dbname = Some ''billing'', host = Some ''localhost'', password = Some ''hunter2'',
         user = Some ''postgres'', port = Some ''5432''\<rparr>]"
    by (simp add: connects_run arguments_staging_no_password)
  from h1 h2 h3 r1 r2 r3 r4 show ?thesis
    by simp
qed

text \<open>
  C4. For every environment there is one connection attempt, and its five parameters
  are what the five \<^verbatim>\<open>os.getenv\<close> calls returned, unchanged: \<open>None\<close> for a key that is not
  in the environment, the value for a key that is. Nothing is checked on the way.
\<close>

theorem values_passed_through_unvalidated:
  "connects (trace (snd (load w (startup e)))) = [arguments w e]
   \<and> dbname (arguments w e) = fst (getenv ''DB_NAME'' (load_dotenv False w (startup e)))
   \<and> user (arguments w e) = fst (getenv ''DB_USERNAME'' (load_dotenv False w (startup e)))
   \<and> password (arguments w e) = fst (getenv ''DB_PASSWORD'' (load_dotenv False w (startup e)))
   \<and> host (arguments w e) = fst (getenv ''DB_HOST'' (load_dotenv False w (startup e)))
   \<and> port (arguments w e) = fst (getenv ''DB_PORT'' (load_dotenv False w (startup e)))
   \<and> (key \<notin> dom (environ s) \<longrightarrow> fst (getenv key s) = None)
   \<and> (environ s key = Some x \<longrightarrow> fst (getenv key s) = Some x)"
  by (simp add: connects_run arguments_def environment_def getenv_def dom_def)

theorem values_passed_through_unvalidated_witness:
  "''DB_HOST'' \<notin> dom (environ (startup Map.empty))
   \<and> fst (getenv ''DB_HOST'' (startup Map.empty)) = None
   \<and> environ (startup shell_env) ''DB_HOST'' = Some ''localhost''
   \<and> fst (getenv ''DB_HOST'' (startup shell_env)) = Some ''localhost''
   \<and> connects (trace (snd (load trusting_world (startup Map.empty)))) =
       [\<lparr>dbname = None, host = None, password = None, user = None, port = None\<rparr>]"
proof -
  have args: "arguments trusting_world Map.empty =
      \<lparr>dbname = None, host = None, password = None, user = None, port = None\<rparr>"
    by (simp add: arguments_def environment_no_file trusting_world_def)
  have h1: "''DB_HOST'' \<notin> dom (environ (startup Map.empty))"
    by (simp add: startup_def)
  have h2: "environ (startup shell_env) ''DB_HOST'' = Some ''localhost''"
    by (simp add: startup_def shell_env_def)
  note a = values_passed_through_unvalidated
      [of trusting_world Map.empty "''DB_HOST''" "startup Map.empty"]
  note b = values_passed_through_unvalidated
      [of trusting_world shell_env "''DB_HOST''" "startup shell_env" "''localhost''"]
  from a h1 have r1: "fst (getenv ''DB_HOST'' (startup Map.empty)) = None"
    by blast
  from b h2 have r2: "fst (getenv ''DB_HOST'' (startup shell_env)) = Some ''localhost''"
    by blast
  from a have r3: "connects (trace (snd (load trusting_world (startup Map.empty))))
      = [arguments trusting_world Map.empty]"
    by blast
  from h1 r1 h2 r2 r3 args show ?thesis
    by simp
qed

text \<open>
  C5. When the connection attempt succeeds, the run ends without error, the connection
  attempt is followed at once by the one release of the handle it returned and by nothing
  else, and no connection is left open. When the attempt fails, the run ends with its
  error, and the attempt is the last call: no release is tried.
\<close>

theorem connection_released_exactly_once:
  "(pg_connect w (arguments w e) (environment w e) = Inr c \<longrightarrow>
      fst (load w (startup e)) = Inr ()
      \<and> drop 6 (trace (snd (load w (startup e)))) = [Connect (arguments w e), Close c]
      \<and> closes (trace (snd (load w (startup e)))) = [c]
      \<and> open_conns (snd (load w (startup e))) = [])
   \<and> (pg_connect w (arguments w e) (environment w e) = Inl err \<longrightarrow>
      fst (load w (startup e)) = Inl err
      \<and> drop 6 (trace (snd (load w (startup e)))) = [Connect (arguments w e)]
      \<and> closes (trace (snd (load w (startup e)))) = []
      \<and> open_conns (snd (load w (startup e))) = [])"
  by (simp add: load_run calls_def)

theorem connection_released_exactly_once_witness:
  "pg_connect trusting_world (arguments trusting_world shell_env)
        (environment trusting_world shell_env) = Inr 7
   \<and> fst (load trusting_world (startup shell_env)) = Inr ()
   \<and> closes (trace (snd (load trusting_world (startup shell_env)))) = [7]
   \<and> pg_connect trusting_world (arguments trusting_world bad_port_env)
         (environment trusting_world bad_port_env) = Inl OperationalError
   \<and> fst (load trusting_world (startup bad_port_env)) = Inl OperationalError
   \<and> closes (trace (snd (load trusting_world (startup bad_port_env)))) = []"
proof -
  have ok: "pg_connect trusting_world (arguments trusting_world shell_env)
        (environment trusting_world shell_env) = Inr 7"
    by (simp add: pg_connect_sample arguments_trusting_shell trusting_server_def)
  have ko: "pg_connect trusting_world (arguments trusting_world bad_port_env)
        (environment trusting_world bad_port_env)
              = Inl OperationalError"
    by (simp add: pg_connect_sample arguments_trusting_bad_port trusting_server_def)
  show ?thesis
    using ok ko connection_released_exactly_once [of trusting_world shell_env 7]
      connection_released_exactly_once [of trusting_world bad_port_env _ OperationalError]
    by simp
qed

text \<open>
  C6, as stated, fails. With \<open>DB_PASSWORD\<close> unset and a server that asks for no
  password, the password read is \<open>None\<close>, the connection opens, the run reaches the
  release and ends without error.
\<close>

theorem unset_password_run_reaches_close:
  "environ (load_dotenv False trusting_world (startup no_password_env)) ''DB_PASSWORD'' = None
   \<and> fst (getenv ''DB_PASSWORD'' (load_dotenv False trusting_world (startup no_password_env)))
       = None
   \<and> fst (load trusting_world (startup no_password_env)) = Inr ()
   \<and> closes (trace (snd (load trusting_world (startup no_password_env)))) = [7]"
proof -
  have unset: "environ (load_dotenv False trusting_world (startup no_password_env))
                 ''DB_PASSWORD'' = None"
    by (simp add: load_dotenv_def startup_def trusting_world_def no_password_env_def)
  have ok: "pg_connect trusting_world (arguments trusting_world no_password_env)
        (environment trusting_world no_password_env) = Inr 7"
    by (simp add: pg_connect_sample arguments_trusting_no_password trusting_server_def)
  show ?thesis
    by (simp add: unset getenv_def result_run closes_run ok)
qed

text \<open>
  C6, amended. The run ends with an error exactly when the connection attempt, made with
  the five values as read, fails; the error is the attempt's and no release follows. When
  the attempt succeeds the run ends without error after the release.
\<close>

theorem load_fails_exactly_when_connect_fails:
  "(pg_connect w (arguments w e) (environment w e) = Inl err \<longrightarrow>
      fst (load w (startup e)) = Inl err
      \<and> closes (trace (snd (load w (startup e)))) = [])
   \<and> (pg_connect w (arguments w e) (environment w e) = Inr c \<longrightarrow>
      fst (load w (startup e)) = Inr ()
      \<and> closes (trace (snd (load w (startup e)))) = [c])
   \<and> connects (trace (snd (load w (startup e)))) = [arguments w e]"
  by (simp add: result_run closes_run connects_run)

theorem load_fails_exactly_when_connect_fails_witness:
  "pg_connect trusting_world (arguments trusting_world bad_port_env)
        (environment trusting_world bad_port_env) = Inl OperationalError
   \<and> fst (load trusting_world (startup bad_port_env)) = Inl OperationalError
   \<and> closes (trace (snd (load trusting_world (startup bad_port_env)))) = []
   \<and> pg_connect trusting_world (arguments trusting_world no_password_env)
         (environment trusting_world no_password_env) = Inr 7
   \<and> fst (load trusting_world (startup no_password_env)) = Inr ()
   \<and> closes (trace (snd (load trusting_world (startup no_password_env)))) = [7]"
proof -
  have ko: "pg_connect trusting_world (arguments trusting_world bad_port_env)
        (environment trusting_world bad_port_env)
              = Inl OperationalError"
    by (simp add: pg_connect_sample arguments_trusting_bad_port trusting_server_def)
  have ok: "pg_connect trusting_world (arguments trusting_world no_password_env)
        (environment trusting_world no_password_env) = Inr 7"
    by (simp add: pg_connect_sample arguments_trusting_no_password trusting_server_def)
  show ?thesis
    using ok ko
      load_fails_exactly_when_connect_fails [of trusting_world bad_port_env OperationalError]
      load_fails_exactly_when_connect_fails [of trusting_world no_password_env _ 7]
    by simp
qed

text \<open>
  C7. The extractor's result and output depend on nothing but what the remote gives at
  the script's URL. The connector, started again in the environment that its first run
  left behind (the keys that \<^verbatim>\<open>load_dotenv()\<close> added included), ends the same way, makes
  the same calls and leaves the same environment; and a run holds no more connections
  open at its end than at its start.
\<close>

theorem rerun_gives_same_behaviour:
  "(read_parquet url = read_parquet' url \<longrightarrow> extract_py read_parquet = extract_py read_parquet')
   \<and> fst (load w (startup (environ (snd (load w (startup e)))))) = fst (load w (startup e))
   \<and> trace (snd (load w (startup (environ (snd (load w (startup e)))))))
       = trace (snd (load w (startup e)))
   \<and> environ (snd (load w (startup (environ (snd (load w (startup e)))))))
       = environ (snd (load w (startup e)))
   \<and> open_conns (snd (load w (startup e))) = open_conns (startup e)"
proof -
  have env: "environ (snd (load w (startup e))) = environment w e"
    by (simp add: load_run split: sum.split)
  have args: "arguments w (environment w e) = arguments w e"
    by (simp add: arguments_def environment_idem)
  have "load w (startup (environment w e)) = load w (startup e)"
    by (simp add: load_run args environment_idem split: sum.split)
  moreover have "open_conns (snd (load w (startup e))) = open_conns (startup e)"
    unfolding load_run by (simp add: startup_def split: sum.split)
  moreover have "read_parquet url = read_parquet' url \<longrightarrow>
      extract_py read_parquet = extract_py read_parquet'"
    by (simp add: extract_py_def)
  ultimately show ?thesis
    by (simp add: env)
qed

theorem rerun_gives_same_behaviour_witness:
  "remote_serving three_rows url = remote_always three_rows url
   \<and> extract_py (remote_serving three_rows) = extract_py (remote_always three_rows)
   \<and> environ (snd (load staging_world (startup no_password_env))) ''DB_PASSWORD''
       = Some ''hunter2''
   \<and> fst (load staging_world (startup (environ (snd (load staging_world
         (startup no_password_env)))))) = Inr ()
   \<and> fst (load staging_world (startup no_password_env)) = Inr ()"
proof -
  have pw: "environment staging_world no_password_env ''DB_PASSWORD'' = Some ''hunter2''"
    using arguments_staging_no_password by (simp add: arguments_def)
  have env: "environ (snd (load staging_world (startup no_password_env)))
               = environment staging_world no_password_env"
    by (simp add: load_run split: sum.split)
  have ok: "pg_connect staging_world (arguments staging_world no_password_env)
              (environment staging_world no_password_env) = Inr 7"
    by (simp add: pg_connect_sample arguments_staging_no_password trusting_server_def)
  have r: "fst (load staging_world (startup no_password_env)) = Inr ()"
    by (simp add: result_run ok)
  show ?thesis
    using pw env r rerun_gives_same_behaviour
          [of "remote_serving three_rows" "remote_always three_rows" staging_world
              no_password_env]
    by (simp add: remote_serving_def remote_always_def)
qed

text \<open>
  C9. A value that one of the five variables has in the process environment before the
  connector starts is the value handed to the connection attempt, whatever the environment
  file binds that name to: \<^verbatim>\<open>load_dotenv()\<close> does not override.
\<close>

theorem environment_set_before_start_wins:
  "connects (trace (snd (load w (startup e)))) = [p] \<Longrightarrow>
     (e ''DB_NAME'' = Some v1 \<longrightarrow> dbname p = Some v1)
     \<and> (e ''DB_USERNAME'' = Some v2 \<longrightarrow> user p = Some v2)
     \<and> (e ''DB_PASSWORD'' = Some v3 \<longrightarrow> password p = Some v3)
     \<and> (e ''DB_HOST'' = Some v4 \<longrightarrow> host p = Some v4)
     \<and> (e ''DB_PORT'' = Some v5 \<longrightarrow> port p = Some v5)"
  by (auto simp: connects_run arguments_def environment_kept)

theorem environment_set_before_start_wins_witness:
  "connects (trace (snd (load staging_world (startup shell_env)))) =
     [\<lparr>dbname = Some ''billing'', host = Some ''localhost'', password = Some ''secret'',
       user = Some ''postgres'', port = Some ''5432''\<rparr>]
   \<and> shell_env ''DB_NAME'' = Some ''billing'' \<and> shell_env ''DB_USERNAME'' = Some ''postgres''
   \<and> shell_env ''DB_PASSWORD'' = Some ''secret'' \<and> shell_env ''DB_HOST'' = Some ''localhost''
   \<and> shell_env ''DB_PORT'' = Some ''5432''"
proof -
  have c: "connects (trace (snd (load staging_world (startup shell_env)))) =
     [\<lparr>dbname = Some ''billing'', host = Some ''localhost'', password = Some ''secret'',
       user = Some ''postgres'', port = Some ''5432''\<rparr>]"
    by (simp add: connects_run arguments_staging_shell)
  have e: "shell_env ''DB_NAME'' = Some ''billing''" "shell_env ''DB_USERNAME'' = Some ''postgres''"
    "shell_env ''DB_PASSWORD'' = Some ''secret''" "shell_env ''DB_HOST'' = Some ''localhost''"
    "shell_env ''DB_PORT'' = Some ''5432''"
    by (simp_all add: shell_env_def)
  show ?thesis
    using c e environment_set_before_start_wins [OF c, of "''billing''" "''postgres''"
        "''secret''" "''localhost''" "''5432''"]
    by simp
qed

text \<open>
  C10. The port handed to the connection attempt is what \<^verbatim>\<open>os.getenv("DB_PORT")\<close>
  returned, a string, whatever its characters. A run that ends with an error has made the
  connection attempt, and the error is the attempt's.
\<close>

theorem port_passed_as_read:
  "map port (connects (trace (snd (load w (startup e)))))
     = [fst (getenv ''DB_PORT'' (load_dotenv False w (startup e)))]
   \<and> (e ''DB_PORT'' = Some s \<longrightarrow>
        map port (connects (trace (snd (load w (startup e))))) = [Some s])
   \<and> (fst (load w (startup e)) = Inl err \<longrightarrow>
        pg_connect w (arguments w e) (environment w e) = Inl err
        \<and> Connect (arguments w e) \<in> set (trace (snd (load w (startup e)))))"
proof -
  have "e ''DB_PORT'' = Some s \<longrightarrow> port (arguments w e) = Some s"
    by (simp add: arguments_def environment_kept)
  moreover have "port (arguments w e) = fst (getenv ''DB_PORT'' (load_dotenv False w (startup e)))"
    by (simp add: arguments_def environment_def getenv_def)
  moreover have "fst (load w (startup e)) = Inl err \<longrightarrow> pg_connect w (arguments w e)
        (environment w e) = Inl err"
    by (simp add: result_run split: sum.split)
  moreover have "Connect (arguments w e) \<in> set (trace (snd (load w (startup e))))"
    by (simp add: trace_run)
  ultimately show ?thesis
    by (simp add: connects_run)
qed

theorem port_passed_as_read_witness:
  "bad_port_env ''DB_PORT'' = Some ''not-a-port''
   \<and> map port (connects (trace (snd (load trusting_world (startup bad_port_env)))))
       = [Some ''not-a-port'']
   \<and> fst (load trusting_world (startup bad_port_env)) = Inl OperationalError
   \<and> pg_connect trusting_world (arguments trusting_world bad_port_env)
         (environment trusting_world bad_port_env) = Inl OperationalError"
proof -
  have p: "bad_port_env ''DB_PORT'' = Some ''not-a-port''"
    by (simp add: bad_port_env_def)
  have r: "fst (load trusting_world (startup bad_port_env)) = Inl OperationalError"
    by (simp add: result_run pg_connect_sample arguments_trusting_bad_port trusting_server_def)
  note t = port_passed_as_read [of trusting_world bad_port_env "''not-a-port''"
      OperationalError]
  from t p have a: "map port (connects (trace (snd (load trusting_world
      (startup bad_port_env))))) = [Some ''not-a-port'']"
    by blast
  from t r have b: "pg_connect trusting_world (arguments trusting_world bad_port_env)
        (environment trusting_world bad_port_env)
      = Inl OperationalError"
    by blast
  from p a r b show ?thesis
    by blast
qed

end
